theory Spec2Isabelle
  imports Complex_Main
begin

section \<open>A/B test power analysis calculator\<close>

text \<open>
  A shallow embedding of \<^verbatim>\<open>data-analysis/power_analysis_calculator.py\<close>, the class
  \<^verbatim>\<open>PowerAnalysisCalculator\<close>.

  Numbers. Python floats are modelled as \<^typ>\<open>real\<close>: arithmetic is exact, there is
  no infinity and no NaN as a value, and no rounding error. The two places where the source
  turns a non-finite float into an exception (\<^verbatim>\<open>int(inf)\<close> and \<^verbatim>\<open>int(nan)\<close>) and
  the one where it divides Python numbers by zero are branches of the model. Python's
  unbounded integers are \<^typ>\<open>int\<close>.

  The standard normal quantile function \<^verbatim>\<open>scipy.stats.norm.ppf\<close> is library code,
  not code of the repository: it is a parameter \<open>ppf\<close> of the constructor.
\<close>

subsection \<open>Errors\<close>

text \<open>
  \<open>ZeroDivisionError\<close>, \<open>OverflowError\<close>, \<open>ValueError\<close> and \<open>KeyError\<close> are the
  exceptions the source can raise on numeric input. \<open>InvalidParameter\<close> and
  \<open>InvalidMDE\<close> are the two error kinds the specification names; the source has no
  \<^verbatim>\<open>raise\<close> statement, so no function below ever returns them.
\<close>

datatype error =
    InvalidParameter
  | InvalidMDE
  | ZeroDivisionError
  | OverflowError
  | ValueError
  | KeyError

subsection \<open>Data\<close>

text \<open>One row of the results table (one dictionary appended to \<^verbatim>\<open>results\<close>).\<close>

record row =
  MDE_Percent :: real
  MDE_Decimal :: real
  Sample_Size_Per_Variant :: int
  Total_Sample_Size :: int
  Population_Split_Percent :: real
  Duration_Days :: real
  Duration_Weeks :: real
  Feasibility :: string
  Traffic_Assessment :: string

text \<open>
  The object's attributes. \<open>results_df\<close> is \<open>None\<close> until the first sweep has assigned
  it (\<^verbatim>\<open>hasattr(self, 'results_df')\<close> is false). The attribute \<^verbatim>\<open>power\<close> is named
  \<open>power_level\<close>, since \<open>power\<close> is HOL's exponentiation.
\<close>

record calculator =
  baseline_rate :: real
  monthly_population :: real
  num_variants :: int
  power_level :: real
  alpha :: real
  z_alpha_2 :: real
  z_beta :: real
  results_df :: "row list option"

text \<open>One entry of the recommendations dictionary, and the dictionary itself.\<close>

record recommendation =
  mde :: real
  duration :: real
  sample_size :: int

record recommendations =
  quick_test :: "recommendation option"
  standard_test :: "recommendation option"
  sensitive_test :: "recommendation option"

subsection \<open>Construction\<close>

text \<open>
  \<^verbatim>\<open>__init__\<close> stores its five arguments and the two critical values. It checks
  nothing and raises nothing; the result type has an error side only so that this can be
  stated.
\<close>

definition init ::
  "(real \<Rightarrow> real) \<Rightarrow> real \<Rightarrow> real \<Rightarrow> int \<Rightarrow> real \<Rightarrow> real \<Rightarrow> error + calculator"
where
  "init ppf baseline_rate' monthly_population' num_variants' power' alpha' =
     Inr \<lparr> baseline_rate = baseline_rate',
           monthly_population = monthly_population',
           num_variants = num_variants',
           power_level = power',
           alpha = alpha',
           z_alpha_2 = ppf (1 - alpha' / 2),
           z_beta = ppf power',
           results_df = None \<rparr>"

text \<open>
  A stand-in for the quantile function on concrete inputs: the six-digit values of the
  standard normal quantile at \<open>0.975\<close> and \<open>0.8\<close> that the specification quotes
  (\<open>1.959964\<close> and \<open>0.841621\<close>), and \<open>0\<close> elsewhere. It is used only to build concrete
  calculators; every general theorem holds for any \<open>ppf\<close>.
\<close>

definition ppf6 :: "real \<Rightarrow> real" where
  "ppf6 q = (if q = 975 / 1000 then 1959964 / 1000000
             else if q = 8 / 10 then 841621 / 1000000
             else 0)"

subsection \<open>Sample size\<close>

text \<open>
  \<^verbatim>\<open>calculate_sample_size\<close>. The numerator is a numpy float (the critical values come from
  scipy), so dividing it by a zero denominator does not raise: it gives infinity, or NaN when
  the numerator is zero too. \<^verbatim>\<open>np.ceil\<close> keeps both, and \<^verbatim>\<open>int\<close> then raises
  \<^verbatim>\<open>OverflowError\<close> on infinity and \<^verbatim>\<open>ValueError\<close> on NaN.
\<close>

definition calculate_sample_size :: "calculator \<Rightarrow> real \<Rightarrow> error + int" where
  "calculate_sample_size c mde' =
     (let p = baseline_rate c;
          numerator = 2 * (z_alpha_2 c + z_beta c)\<^sup>2 * p * (1 - p);
          denominator = mde'\<^sup>2
      in if denominator = 0
         then (if numerator = 0 then Inl ValueError else Inl OverflowError)
         else Inr \<lceil>numerator / denominator\<rceil>)"

subsection \<open>The sweep\<close>

text \<open>
  Python's \<^verbatim>\<open>round(x, 2)\<close>: the nearest multiple of one hundredth, a tie going to the
  even one.
\<close>

definition round_half_even :: "real \<Rightarrow> int" where
  "round_half_even x =
     (let f = \<lfloor>x\<rfloor>; d = x - of_int f
      in if d < 1 / 2 then f
         else if 1 / 2 < d then f + 1
         else if even f then f else f + 1)"

definition round2 :: "real \<Rightarrow> real" where
  "round2 x = of_int (round_half_even (x * 100)) / 100"

text \<open>The two \<^verbatim>\<open>if\<close>/\<^verbatim>\<open>elif\<close> chains of the loop body.\<close>

definition feasibility_of :: "real \<Rightarrow> string" where
  "feasibility_of duration_days =
     (if duration_days \<le> 7 then ''Very Short''
      else if duration_days \<le> 14 then ''Short''
      else if duration_days \<le> 30 then ''Moderate''
      else ''Long'')"

definition traffic_assessment_of :: "real \<Rightarrow> string" where
  "traffic_assessment_of population_split_percent =
     (if population_split_percent \<le> 25 then ''Excellent''
      else if population_split_percent \<le> 50 then ''Good''
      else if population_split_percent \<le> 75 then ''Challenging''
      else ''Insufficient Traffic'')"

text \<open>
  The body of the \<^verbatim>\<open>for\<close> loop of \<^verbatim>\<open>calculate_power_analysis\<close>, for one
  \<^verbatim>\<open>mde_percent\<close>. The first division by \<^verbatim>\<open>self.monthly_population\<close> is a division
  of Python numbers and raises \<^verbatim>\<open>ZeroDivisionError\<close> when it is zero.
\<close>

definition analyse_mde :: "calculator \<Rightarrow> real \<Rightarrow> error + row" where
  "analyse_mde c mde_percent =
     (let mde_decimal = mde_percent / 100
      in case calculate_sample_size c mde_decimal of
           Inl e \<Rightarrow> Inl e
         | Inr sample_size_per_variant \<Rightarrow>
             (let total_sample_size = sample_size_per_variant * num_variants c
              in if monthly_population c = 0 then Inl ZeroDivisionError
                 else
                   (let population_split_percent =
                          (of_int total_sample_size / monthly_population c) * 100;
                        daily_population = monthly_population c / 30;
                        duration_days = of_int total_sample_size / daily_population;
                        duration_weeks = duration_days / 7
                    in Inr \<lparr> MDE_Percent = mde_percent,
                             MDE_Decimal = mde_decimal,
                             Sample_Size_Per_Variant = sample_size_per_variant,
                             Total_Sample_Size = total_sample_size,
                             Population_Split_Percent = round2 population_split_percent,
                             Duration_Days = round2 duration_days,
                             Duration_Weeks = round2 duration_weeks,
                             Feasibility = feasibility_of duration_days,
                             Traffic_Assessment =
                               traffic_assessment_of population_split_percent \<rparr>)))"

text \<open>The loop: rows are appended to \<^verbatim>\<open>results\<close> in range order; an exception ends it.\<close>

fun sweep_loop :: "calculator \<Rightarrow> real list \<Rightarrow> row list \<Rightarrow> error + row list" where
  "sweep_loop c [] results = Inr results"
| "sweep_loop c (mde_percent # rest) results =
     (case analyse_mde c mde_percent of
        Inl e \<Rightarrow> Inl e
      | Inr r \<Rightarrow> sweep_loop c rest (results @ [r]))"

text \<open>
  \<^verbatim>\<open>calculate_power_analysis\<close>: the default range is \<^verbatim>\<open>list(range(1, 31))\<close>; the table
  is returned and also stored in \<^verbatim>\<open>self.results_df\<close>, so the calculator is returned
  updated. The attribute is not assigned when the loop raises.
\<close>

definition calculate_power_analysis ::
  "calculator \<Rightarrow> real list option \<Rightarrow> error + (row list \<times> calculator)"
where
  "calculate_power_analysis c mde_range =
     (let mde_range' = (case mde_range of None \<Rightarrow> map real [1..<31] | Some ms \<Rightarrow> ms)
      in case sweep_loop c mde_range' [] of
           Inl e \<Rightarrow> Inl e
         | Inr results \<Rightarrow> Inr (results, c\<lparr>results_df := Some results\<rparr>))"

subsection \<open>Recommendations\<close>

definition pick :: "row \<Rightarrow> recommendation" where
  "pick r = \<lparr> mde = MDE_Percent r,
             duration = Duration_Days r,
             sample_size = Total_Sample_Size r \<rparr>"

text \<open>
  The three tables \<^verbatim>\<open>feasible\<close>, \<^verbatim>\<open>quick\<close> and \<^verbatim>\<open>standard\<close> of
  \<^verbatim>\<open>get_recommendations\<close>: a boolean mask keeps the selected rows in their order.
\<close>

definition feasible_rows :: "row list \<Rightarrow> row list" where
  "feasible_rows df =
     filter (\<lambda>r. Duration_Days r \<le> 30 \<and> Population_Split_Percent r \<le> 50) df"

definition quick_rows :: "row list \<Rightarrow> row list" where
  "quick_rows feasible = filter (\<lambda>r. Duration_Days r \<le> 7) feasible"

definition standard_rows :: "row list \<Rightarrow> row list" where
  "standard_rows feasible =
     filter (\<lambda>r. 7 < Duration_Days r \<and> Duration_Days r \<le> 21) feasible"

text \<open>
  The part of \<^verbatim>\<open>get_recommendations\<close> after the table is there. A table built from an
  empty list of rows (\<^verbatim>\<open>pd.DataFrame([])\<close>) has no columns, so the first column access
  \<^verbatim>\<open>self.results_df['Duration_Days']\<close> raises \<^verbatim>\<open>KeyError\<close>. Otherwise
  \<^verbatim>\<open>iloc[-1]\<close> is the last row, \<^verbatim>\<open>iloc[0]\<close> the first and
  \<^verbatim>\<open>iloc[len(standard) // 2]\<close> the middle one, each read only when its table is not
  empty.
\<close>

definition recommend :: "row list \<Rightarrow> error + recommendations" where
  "recommend df =
     (if df = [] then Inl KeyError
      else
        (let feasible = feasible_rows df;
             quick = quick_rows feasible;
             standard = standard_rows feasible;
             mid_idx = length standard div 2
         in Inr \<lparr> quick_test =
                    (if quick \<noteq> [] then Some (pick (last quick)) else None),
                  standard_test =
                    (if standard \<noteq> [] then Some (pick (standard ! mid_idx)) else None),
                  sensitive_test =
                    (if feasible \<noteq> [] then Some (pick (hd feasible)) else None) \<rparr>))"

text \<open>
  \<^verbatim>\<open>get_recommendations\<close>: runs the default sweep first when no table is stored yet.
\<close>

definition get_recommendations :: "calculator \<Rightarrow> error + (recommendations \<times> calculator)" where
  "get_recommendations c =
     (case results_df c of
        Some df \<Rightarrow>
          (case recommend df of Inl e \<Rightarrow> Inl e | Inr recs \<Rightarrow> Inr (recs, c))
      | None \<Rightarrow>
          (case calculate_power_analysis c None of
             Inl e \<Rightarrow> Inl e
           | Inr (df, c') \<Rightarrow>
               (case recommend df of Inl e \<Rightarrow> Inl e | Inr recs \<Rightarrow> Inr (recs, c'))))"

subsection \<open>Concrete calculators\<close>

text \<open>
  The calculator of the specification's worked example (baseline rate 0.05, 100000 users a
  month, two variants, power 0.8, alpha 0.05), as \<open>init\<close> builds it with \<open>ppf6\<close>.
\<close>

definition example_calculator :: calculator where
  "example_calculator =
     \<lparr> baseline_rate = 5 / 100,
       monthly_population = 100000,
       num_variants = 2,
       power_level = 8 / 10,
       alpha = 5 / 100,
       z_alpha_2 = 1959964 / 1000000,
       z_beta = 841621 / 1000000,
       results_df = None \<rparr>"

text \<open>
  The same calculator with 1000 users a month, and the four rows its sweep over the range
  \<open>[5, 7, 10, 20]\<close> produces.
\<close>

definition small_calculator :: calculator where
  "small_calculator = example_calculator\<lparr>monthly_population := 1000\<rparr>"

definition row_5 :: row where
  "row_5 = \<lparr> MDE_Percent = 5, MDE_Decimal = 5 / 100, Sample_Size_Per_Variant = 299,
             Total_Sample_Size = 598, Population_Split_Percent = 598 / 10,
             Duration_Days = 1794 / 100, Duration_Weeks = 256 / 100,
             Feasibility = ''Moderate'', Traffic_Assessment = ''Challenging'' \<rparr>"

definition row_7 :: row where
  "row_7 = \<lparr> MDE_Percent = 7, MDE_Decimal = 7 / 100, Sample_Size_Per_Variant = 153,
             Total_Sample_Size = 306, Population_Split_Percent = 306 / 10,
             Duration_Days = 918 / 100, Duration_Weeks = 131 / 100,
             Feasibility = ''Short'', Traffic_Assessment = ''Good'' \<rparr>"

definition row_10 :: row where
  "row_10 = \<lparr> MDE_Percent = 10, MDE_Decimal = 10 / 100, Sample_Size_Per_Variant = 75,
              Total_Sample_Size = 150, Population_Split_Percent = 15,
              Duration_Days = 45 / 10, Duration_Weeks = 64 / 100,
              Feasibility = ''Very Short'', Traffic_Assessment = ''Excellent'' \<rparr>"

definition row_20 :: row where
  "row_20 = \<lparr> MDE_Percent = 20, MDE_Decimal = 20 / 100, Sample_Size_Per_Variant = 19,
              Total_Sample_Size = 38, Population_Split_Percent = 38 / 10,
              Duration_Days = 114 / 100, Duration_Weeks = 16 / 100,
              Feasibility = ''Very Short'', Traffic_Assessment = ''Excellent'' \<rparr>"

definition small_table :: "row list" where
  "small_table = [row_5, row_7, row_10, row_20]"

section \<open>Properties\<close>

subsection \<open>Sample size\<close>

lemma calculate_sample_size_nonzero:
  "mde' \<noteq> 0 \<Longrightarrow>
   calculate_sample_size c mde' =
     Inr \<lceil>2 * (z_alpha_2 c + z_beta c)\<^sup>2 * baseline_rate c * (1 - baseline_rate c)
            / mde'\<^sup>2\<rceil>"
  by (simp add: calculate_sample_size_def Let_def)

lemma calculate_sample_size_zero:
  "calculate_sample_size c 0 = Inl OverflowError \<or> calculate_sample_size c 0 = Inl ValueError"
  by (simp add: calculate_sample_size_def Let_def)

lemma calculate_sample_size_results_df:
  "calculate_sample_size (c\<lparr>results_df := df\<rparr>) mde' = calculate_sample_size c mde'"
  by (simp add: calculate_sample_size_def)

lemma init_example: "init ppf6 (5 / 100) 100000 2 (8 / 10) (5 / 100) = Inr example_calculator"
  by (simp add: init_def ppf6_def example_calculator_def)

lemma sample_size_example_5: "calculate_sample_size example_calculator (5 / 100) = Inr 299"
  by (simp add: calculate_sample_size_def example_calculator_def Let_def power2_eq_square)

lemma sample_size_example_7: "calculate_sample_size example_calculator (7 / 100) = Inr 153"
  by (simp add: calculate_sample_size_def example_calculator_def Let_def power2_eq_square)

lemma sample_size_example_10: "calculate_sample_size example_calculator (10 / 100) = Inr 75"
  by (simp add: calculate_sample_size_def example_calculator_def Let_def power2_eq_square)

lemma sample_size_example_20: "calculate_sample_size example_calculator (20 / 100) = Inr 19"
  by (simp add: calculate_sample_size_def example_calculator_def Let_def power2_eq_square)

text \<open>
  C3, as the source has it. The sample size function checks nothing about the MDE and never
  fails with \<open>InvalidMDE\<close>. It does not reject a negative MDE: the MDE enters only
  squared, so a negative MDE gives exactly what its absolute value gives. For the MDE 0 it
  returns no number: the conversion of the non-finite quotient to an integer raises
  \<open>OverflowError\<close> or \<open>ValueError\<close>.
\<close>

theorem sample_size_mde_errors:
  "calculate_sample_size c mde' \<noteq> Inl InvalidMDE
   \<and> calculate_sample_size c (- mde') = calculate_sample_size c mde'
   \<and> (calculate_sample_size c 0 = Inl OverflowError
      \<or> calculate_sample_size c 0 = Inl ValueError)"
proof -
  have "calculate_sample_size c mde' \<noteq> Inl InvalidMDE"
    by (simp add: calculate_sample_size_def Let_def)
  moreover have "calculate_sample_size c (- mde') = calculate_sample_size c mde'"
    by (simp add: calculate_sample_size_def)
  ultimately show ?thesis
    using calculate_sample_size_zero[of c] by blast
qed

text \<open>
  C3 as stated fails: a negative MDE gives a number, not an error, and the MDE 0 gives
  \<open>OverflowError\<close>, not \<open>InvalidMDE\<close>.
\<close>

theorem negative_mde_returns_number:
  "calculate_sample_size example_calculator (- 10 / 100) = Inr 75
   \<and> calculate_sample_size example_calculator 0 = Inl OverflowError"
  by (simp add: calculate_sample_size_def example_calculator_def Let_def power2_eq_square)

text \<open>
  C7, as the source has it. For a calculator with a baseline rate strictly between 0 and 1
  and MDE values \<open>0 < mde1 < mde2\<close>, whenever the sample size function returns a number
  for both, the one for \<open>mde2\<close> is at most the one for \<open>mde1\<close>: the sample size never
  increases with the MDE. It need not decrease, since the ceiling maps nearby quotients to
  the same integer.
\<close>

theorem sample_size_antitone:
  assumes "0 < baseline_rate c" and "baseline_rate c < 1" and "0 < mde1" and "mde1 < mde2"
    and "calculate_sample_size c mde1 = Inr n1"
    and "calculate_sample_size c mde2 = Inr n2"
  shows "n2 \<le> n1"
proof -
  define numerator where
    "numerator = 2 * (z_alpha_2 c + z_beta c)\<^sup>2 * baseline_rate c * (1 - baseline_rate c)"
  have nonneg: "0 \<le> numerator"
    unfolding numerator_def using assms(1,2) by simp
  have sq: "mde1\<^sup>2 \<le> mde2\<^sup>2" "0 < mde1\<^sup>2"
    using assms(3,4) by (simp_all add: power_mono)
  have "numerator / mde2\<^sup>2 \<le> numerator / mde1\<^sup>2"
    using nonneg sq by (intro frac_le) simp_all
  then have le: "\<lceil>numerator / mde2\<^sup>2\<rceil> \<le> \<lceil>numerator / mde1\<^sup>2\<rceil>"
    by (rule ceiling_mono)
  have "mde1 \<noteq> 0" "mde2 \<noteq> 0"
    using assms(3,4) by simp_all
  then have "n1 = \<lceil>numerator / mde1\<^sup>2\<rceil>" "n2 = \<lceil>numerator / mde2\<^sup>2\<rceil>"
    using assms(5,6) by (simp_all add: calculate_sample_size_nonzero numerator_def)
  with le show ?thesis by simp
qed

theorem sample_size_antitone_witness:
  "0 < baseline_rate example_calculator \<and> baseline_rate example_calculator < 1
   \<and> (0::real) < 10 / 100 \<and> (10 / 100 :: real) < 20 / 100
   \<and> calculate_sample_size example_calculator (10 / 100) = Inr 75
   \<and> calculate_sample_size example_calculator (20 / 100) = Inr 19
   \<and> (19::int) \<le> 75"
proof -
  have h: "0 < baseline_rate example_calculator" "baseline_rate example_calculator < 1"
      "(0::real) < 10 / 100" "(10 / 100 :: real) < 20 / 100"
    by (simp_all add: example_calculator_def)
  have "(19::int) \<le> 75"
    by (rule sample_size_antitone [OF h sample_size_example_10 sample_size_example_20])
  with h sample_size_example_10 sample_size_example_20 show ?thesis by blast
qed

text \<open>
  C7 as stated fails: in the worked example the MDE values 29 percent and 30 percent, both
  in the default range, need the same sample size, 9.
\<close>

theorem sample_size_not_strictly_decreasing:
  "calculate_sample_size example_calculator (29 / 100) = Inr 9
   \<and> calculate_sample_size example_calculator (30 / 100) = Inr 9"
  by (simp add: calculate_sample_size_def example_calculator_def Let_def power2_eq_square)

text \<open>
  C8, as the source has it. With baseline rate 0.05, 100000 users a month, two variants,
  power 0.8, alpha 0.05 and a quantile function that agrees with \<open>1.959964\<close> and
  \<open>0.841621\<close> to six decimals, the sample size for the MDE 10 percent is
  \<open>ceil(2 * (1.959964 + 0.841621)\<^sup>2 * 0.05 * 0.95 / 0.01)\<close>, and that number is 75.
\<close>

theorem worked_example_is_75:
  assumes "\<bar>ppf (1 - (5 / 100) / 2) - 1959964 / 1000000\<bar> \<le> 1 / 1000000"
      and "\<bar>ppf (8 / 10) - 841621 / 1000000\<bar> \<le> 1 / 1000000"
      and "init ppf (5 / 100) 100000 2 (8 / 10) (5 / 100) = Inr c"
  shows "calculate_sample_size c (10 / 100) =
           Inr \<lceil>2 * (1959964 / 1000000 + 841621 / 1000000)\<^sup>2 * (5 / 100) * (95 / 100)
                  / (1 / 100) :: real\<rceil>
       \<and> calculate_sample_size c (10 / 100) = Inr 75"
proof -
  have cz: "z_alpha_2 c = ppf (1 - (5 / 100) / 2)" "z_beta c = ppf (8 / 10)"
      "baseline_rate c = 5 / 100"
    using assms(3) by (auto simp: init_def)
  define s where "s = ppf (1 - (5 / 100) / 2) + ppf (8 / 10)"
  have lo: "2801583 / 1000000 \<le> s" and hi: "s \<le> 2801587 / 1000000"
    using assms(1,2) unfolding s_def by linarith+
  have "(2801583 / 1000000)\<^sup>2 \<le> s\<^sup>2"
    using lo by (intro power_mono) simp_all
  then have lo2: "7848 / 1000 \<le> s\<^sup>2"
    by (simp add: power2_eq_square)
  have "s\<^sup>2 \<le> (2801587 / 1000000)\<^sup>2"
    using lo hi by (intro power_mono) simp_all
  then have hi2: "s\<^sup>2 \<le> 7849 / 1000"
    by (simp add: power2_eq_square)
  have eq: "2 * s\<^sup>2 * (5 / 100) * (1 - 5 / 100) / (10 / 100)\<^sup>2 = s\<^sup>2 * (19 / 2)"
    by (simp add: power2_eq_square)
  have "\<lceil>s\<^sup>2 * (19 / 2)\<rceil> = 75"
    using lo2 hi2 by (simp add: ceiling_eq_iff)
  then have n: "Inr \<lceil>s\<^sup>2 * (19 / 2)\<rceil> = (Inr 75 :: error + int)"
    by simp
  have "calculate_sample_size c (10 / 100) =
          Inr \<lceil>2 * s\<^sup>2 * (5 / 100) * (1 - 5 / 100) / (10 / 100)\<^sup>2\<rceil>"
    using calculate_sample_size_nonzero[of "10 / 100" c] by (simp add: cz s_def)
  also have "\<dots> = Inr \<lceil>s\<^sup>2 * (19 / 2)\<rceil>"
    by (simp only: eq)
  finally have "calculate_sample_size c (10 / 100) = Inr 75"
    using n by simp
  moreover have "\<lceil>2 * (1959964 / 1000000 + 841621 / 1000000)\<^sup>2 * (5 / 100) * (95 / 100)
                   / (1 / 100) :: real\<rceil> = 75"
    by (simp add: power2_eq_square)
  ultimately show ?thesis by simp
qed

theorem worked_example_is_75_witness:
  "\<bar>ppf6 (1 - (5 / 100) / 2) - 1959964 / 1000000\<bar> \<le> 1 / 1000000
   \<and> \<bar>ppf6 (8 / 10) - 841621 / 1000000\<bar> \<le> 1 / 1000000
   \<and> init ppf6 (5 / 100) 100000 2 (8 / 10) (5 / 100) = Inr example_calculator
   \<and> calculate_sample_size example_calculator (10 / 100) = Inr 75"
proof -
  have h: "\<bar>ppf6 (1 - (5 / 100) / 2) - 1959964 / 1000000\<bar> \<le> 1 / 1000000"
      "\<bar>ppf6 (8 / 10) - 841621 / 1000000\<bar> \<le> 1 / 1000000"
    by (simp_all add: ppf6_def)
  have "calculate_sample_size example_calculator (10 / 100) = Inr 75"
    using worked_example_is_75 [OF h init_example] by (rule conjunct2)
  with h init_example show ?thesis by blast
qed

text \<open>
  C8 as stated fails: the sample size of the worked example is not 1492 (it is 75, see
  above).
\<close>

theorem worked_example_not_1492:
  "calculate_sample_size example_calculator (10 / 100) \<noteq> Inr 1492"
  by (simp add: calculate_sample_size_def example_calculator_def Let_def power2_eq_square)

subsection \<open>Construction\<close>

text \<open>
  C2, as the source has it. The constructor validates nothing: for every baseline rate,
  monthly population, number of variants, power and alpha it succeeds, and the calculator
  holds the five inputs as given and the two critical values. It never fails with
  \<open>InvalidParameter\<close>.
\<close>

theorem init_never_fails:
  "init ppf b m n pw al =
     Inr \<lparr> baseline_rate = b, monthly_population = m, num_variants = n, power_level = pw,
           alpha = al, z_alpha_2 = ppf (1 - al / 2), z_beta = ppf pw, results_df = None \<rparr>
   \<and> init ppf b m n pw al \<noteq> Inl InvalidParameter"
  by (simp add: init_def)

text \<open>
  C2 as stated fails: construction succeeds with one variant, and with a monthly
  population of 0, and the sample size is then computed on the calculator with one variant.
\<close>

theorem init_accepts_invalid_parameters:
  "init ppf6 (5 / 100) 100000 1 (8 / 10) (5 / 100) =
     Inr (example_calculator\<lparr>num_variants := 1\<rparr>)
   \<and> init ppf6 (5 / 100) 0 2 (8 / 10) (5 / 100) =
     Inr (example_calculator\<lparr>monthly_population := 0\<rparr>)
   \<and> calculate_sample_size (example_calculator\<lparr>num_variants := 1\<rparr>) (10 / 100) = Inr 75"
  by (simp add: init_def ppf6_def example_calculator_def calculate_sample_size_def Let_def
      power2_eq_square)

subsection \<open>The sweep\<close>

lemma analyse_mde_eq:
  assumes "calculate_sample_size c (m / 100) = Inr n" and "monthly_population c \<noteq> 0"
  shows "analyse_mde c m =
     Inr \<lparr> MDE_Percent = m, MDE_Decimal = m / 100, Sample_Size_Per_Variant = n,
           Total_Sample_Size = n * num_variants c,
           Population_Split_Percent =
             round2 (of_int (n * num_variants c) / monthly_population c * 100),
           Duration_Days = round2 (of_int (n * num_variants c) / (monthly_population c / 30)),
           Duration_Weeks =
             round2 (of_int (n * num_variants c) / (monthly_population c / 30) / 7),
           Feasibility =
             feasibility_of (of_int (n * num_variants c) / (monthly_population c / 30)),
           Traffic_Assessment =
             traffic_assessment_of
               (of_int (n * num_variants c) / monthly_population c * 100) \<rparr>"
  using assms by (simp add: analyse_mde_def Let_def)

lemma analyse_mde_row:
  assumes "analyse_mde c m = Inr r"
  shows "monthly_population c \<noteq> 0"
    and "MDE_Percent r = m"
    and "MDE_Decimal r = m / 100"
    and "calculate_sample_size c (m / 100) = Inr (Sample_Size_Per_Variant r)"
    and "Total_Sample_Size r = Sample_Size_Per_Variant r * num_variants c"
    and "Population_Split_Percent r =
           round2 (of_int (Total_Sample_Size r) / monthly_population c * 100)"
    and "Duration_Days r = round2 (of_int (Total_Sample_Size r) / (monthly_population c / 30))"
    and "Duration_Weeks r =
           round2 (of_int (Total_Sample_Size r) / (monthly_population c / 30) / 7)"
    and "Feasibility r =
           feasibility_of (of_int (Total_Sample_Size r) / (monthly_population c / 30))"
    and "Traffic_Assessment r =
           traffic_assessment_of (of_int (Total_Sample_Size r) / monthly_population c * 100)"
  using assms
  by (auto simp: analyse_mde_def Let_def split: sum.splits if_splits)

text \<open>The loop appends one row for each element of the range, in order.\<close>

lemma sweep_loop_rows:
  "sweep_loop c ms acc = Inr rs \<Longrightarrow>
     \<exists>rs'. rs = acc @ rs' \<and> list_all2 (\<lambda>m r. analyse_mde c m = Inr r) ms rs'"
proof (induction ms arbitrary: acc)
  case Nil
  then show ?case by simp
next
  case (Cons m ms)
  then obtain r where r: "analyse_mde c m = Inr r"
    and rest: "sweep_loop c ms (acc @ [r]) = Inr rs"
    by (auto split: sum.splits)
  from Cons.IH[OF rest] obtain rs' where "rs = (acc @ [r]) @ rs'"
    and "list_all2 (\<lambda>m r. analyse_mde c m = Inr r) ms rs'"
    by blast
  with r show ?case
    by (intro exI[of _ "r # rs'"]) simp
qed

lemma sweep_row_origin:
  assumes "calculate_power_analysis c mde_range = Inr (results, c')" and "r \<in> set results"
  shows "\<exists>m. analyse_mde c m = Inr r"
proof -
  from assms(1) obtain ms where "sweep_loop c ms [] = Inr results"
    by (auto simp: calculate_power_analysis_def Let_def split: sum.splits)
  from sweep_loop_rows[OF this]
  have "list_all2 (\<lambda>m r. analyse_mde c m = Inr r) ms results"
    by simp
  with assms(2) show ?thesis
    by (auto simp: list_all2_conv_all_nth in_set_conv_nth)
qed

lemma analyse_mde_results_df:
  "analyse_mde (c\<lparr>results_df := x\<rparr>) m = analyse_mde c m"
  by (simp add: analyse_mde_def calculate_sample_size_def Let_def
      cong: sum.case_cong if_cong)

lemma sweep_loop_results_df:
  "sweep_loop (c\<lparr>results_df := x\<rparr>) ms acc = sweep_loop c ms acc"
  by (induction ms arbitrary: acc) (simp_all add: analyse_mde_results_df split: sum.splits)

text \<open>The sweep of the small calculator over \<open>[5, 7, 10, 20]\<close>, row by row.\<close>

lemma sample_size_small:
  "calculate_sample_size small_calculator mde' = calculate_sample_size example_calculator mde'"
  by (simp add: small_calculator_def calculate_sample_size_def)

lemma analyse_small_5: "analyse_mde small_calculator 5 = Inr row_5"
proof -
  have n: "calculate_sample_size small_calculator (5 / 100) = Inr 299"
    by (simp only: sample_size_small sample_size_example_5)
  have p: "monthly_population small_calculator \<noteq> 0"
    by (simp add: small_calculator_def)
  show ?thesis
    unfolding analyse_mde_eq[OF n p]
    by (simp add: small_calculator_def example_calculator_def row_5_def round2_def
        round_half_even_def Let_def feasibility_of_def traffic_assessment_of_def)
qed

lemma analyse_small_7: "analyse_mde small_calculator 7 = Inr row_7"
proof -
  have n: "calculate_sample_size small_calculator (7 / 100) = Inr 153"
    by (simp only: sample_size_small sample_size_example_7)
  have p: "monthly_population small_calculator \<noteq> 0"
    by (simp add: small_calculator_def)
  show ?thesis
    unfolding analyse_mde_eq[OF n p]
    by (simp add: small_calculator_def example_calculator_def row_7_def round2_def
        round_half_even_def Let_def feasibility_of_def traffic_assessment_of_def)
qed

lemma analyse_small_10: "analyse_mde small_calculator 10 = Inr row_10"
proof -
  have n: "calculate_sample_size small_calculator (10 / 100) = Inr 75"
    by (simp only: sample_size_small sample_size_example_10)
  have p: "monthly_population small_calculator \<noteq> 0"
    by (simp add: small_calculator_def)
  show ?thesis
    unfolding analyse_mde_eq[OF n p]
    by (simp add: small_calculator_def example_calculator_def row_10_def round2_def
        round_half_even_def Let_def feasibility_of_def traffic_assessment_of_def)
qed

lemma analyse_small_20: "analyse_mde small_calculator 20 = Inr row_20"
proof -
  have n: "calculate_sample_size small_calculator (20 / 100) = Inr 19"
    by (simp only: sample_size_small sample_size_example_20)
  have p: "monthly_population small_calculator \<noteq> 0"
    by (simp add: small_calculator_def)
  show ?thesis
    unfolding analyse_mde_eq[OF n p]
    by (simp add: small_calculator_def example_calculator_def row_20_def round2_def
        round_half_even_def Let_def feasibility_of_def traffic_assessment_of_def)
qed

lemma sweep_small:
  "calculate_power_analysis small_calculator (Some [5, 7, 10, 20]) =
     Inr (small_table, small_calculator\<lparr>results_df := Some small_table\<rparr>)"
  by (simp add: calculate_power_analysis_def small_table_def
      analyse_small_5 analyse_small_7 analyse_small_10 analyse_small_20)

text \<open>
  The buckets are decided on the unrounded values; the stored \<open>Duration_Days\<close> and
  \<open>Population_Split_Percent\<close> are rounded afterwards. With 964 users a month and three
  variants the worked example needs 7.002 days at 10 percent: the row shows 7 days and the
  label \<open>Short\<close>.
\<close>

lemma stored_duration_rounded_after_bucketing:
  "analyse_mde (example_calculator\<lparr>monthly_population := 964, num_variants := 3\<rparr>) 10 =
     Inr \<lparr> MDE_Percent = 10, MDE_Decimal = 10 / 100, Sample_Size_Per_Variant = 75,
           Total_Sample_Size = 225, Population_Split_Percent = 2334 / 100,
           Duration_Days = 7, Duration_Weeks = 1,
           Feasibility = ''Short'', Traffic_Assessment = ''Excellent'' \<rparr>"
proof -
  let ?c = "example_calculator\<lparr>monthly_population := 964, num_variants := 3\<rparr>"
  have n: "calculate_sample_size ?c (10 / 100) = Inr 75"
    using sample_size_example_10 by (simp add: calculate_sample_size_def)
  have p: "monthly_population ?c \<noteq> 0"
    by simp
  show ?thesis
    unfolding analyse_mde_eq[OF n p]
    by (simp add: round2_def round_half_even_def Let_def feasibility_of_def
        traffic_assessment_of_def)
qed

text \<open>
  C9. A sweep reads nothing that a sweep writes. After a first sweep has succeeded and stored
  its table in the calculator, a second sweep of the same range on that calculator returns
  the same table, row for row, and a sweep of any range returns what it would have returned
  before the first one.
\<close>

theorem sweep_repeatable:
  assumes "calculate_power_analysis c mde_range = Inr (results, c1)"
  shows "calculate_power_analysis c1 mde_range = Inr (results, c1)
       \<and> (\<forall>mde_range'. calculate_power_analysis c1 mde_range' =
                          calculate_power_analysis c mde_range')"
proof -
  from assms have c1: "c1 = c\<lparr>results_df := Some results\<rparr>"
    by (auto simp: calculate_power_analysis_def Let_def split: sum.splits)
  have same: "calculate_power_analysis c1 mde_range' = calculate_power_analysis c mde_range'"
    for mde_range'
    unfolding c1
    by (simp add: calculate_power_analysis_def Let_def sweep_loop_results_df
        split: sum.splits)
  with assms show ?thesis by simp
qed

theorem sweep_repeatable_witness:
  "calculate_power_analysis small_calculator (Some [5, 7, 10, 20]) =
     Inr (small_table, small_calculator\<lparr>results_df := Some small_table\<rparr>)
   \<and> calculate_power_analysis (small_calculator\<lparr>results_df := Some small_table\<rparr>)
       (Some [5, 7, 10, 20]) =
     Inr (small_table, small_calculator\<lparr>results_df := Some small_table\<rparr>)"
  using sweep_repeatable [OF sweep_small] sweep_small by blast

subsection \<open>Recommendations\<close>

lemma get_recommendations_table:
  assumes "get_recommendations c = Inr (recs, c')"
  shows "\<exists>df. results_df c' = Some df \<and> recommend df = Inr recs"
proof (cases "results_df c")
  case None
  with assms show ?thesis
    by (auto simp: get_recommendations_def calculate_power_analysis_def Let_def
        split: sum.splits)
next
  case (Some df)
  with assms show ?thesis
    by (auto simp: get_recommendations_def split: sum.splits)
qed

lemma recommend_Inr:
  assumes "recommend df = Inr recs"
  shows "df \<noteq> []"
    and "quick_test recs =
           (if quick_rows (feasible_rows df) \<noteq> []
            then Some (pick (last (quick_rows (feasible_rows df)))) else None)"
    and "standard_test recs =
           (if standard_rows (feasible_rows df) \<noteq> []
            then Some (pick (standard_rows (feasible_rows df) !
                              (length (standard_rows (feasible_rows df)) div 2)))
            else None)"
    and "sensitive_test recs =
           (if feasible_rows df \<noteq> [] then Some (pick (hd (feasible_rows df))) else None)"
  using assms by (auto simp: recommend_def Let_def split: if_splits)

lemma quick_rows_subset: "set (quick_rows f) \<subseteq> set f"
  by (auto simp: quick_rows_def)

lemma standard_rows_subset: "set (standard_rows f) \<subseteq> set f"
  by (auto simp: standard_rows_def)

lemma sorted_filter_last:
  assumes "sorted (map f xs)" and "filter P xs \<noteq> []" and "x \<in> set (filter P xs)"
  shows "f x \<le> f (last (filter P xs))"
proof -
  have "sorted (map f (filter P xs))"
    using assms(1) by (rule sorted_filter)
  moreover obtain ys y where ys: "filter P xs = ys @ [y]"
    using assms(2) by (metis append_butlast_last_id)
  ultimately have "\<forall>z\<in>set ys. f z \<le> f y"
    by (simp add: sorted_append)
  with assms(3) ys show ?thesis by auto
qed

lemma sorted_filter_hd:
  assumes "sorted (map f xs)" and "x \<in> set (filter P xs)"
  shows "f (hd (filter P xs)) \<le> f x"
proof -
  have s: "sorted (map f (filter P xs))"
    using assms(1) by (rule sorted_filter)
  from assms(2) obtain y ys where ys: "filter P xs = y # ys"
    by (cases "filter P xs") auto
  with s have "\<forall>z\<in>set ys. f y \<le> f z" by simp
  with assms(2) ys show ?thesis by auto
qed

text \<open>The recommendations for the table of the small calculator.\<close>

lemma feasible_small: "feasible_rows small_table = [row_7, row_10, row_20]"
  by (simp add: feasible_rows_def small_table_def row_5_def row_7_def row_10_def row_20_def)

lemma recommend_small:
  "recommend small_table =
     Inr \<lparr> quick_test = Some (pick row_20),
           standard_test = Some (pick row_7),
           sensitive_test = Some (pick row_7) \<rparr>"
proof -
  have "small_table \<noteq> []"
    by (simp add: small_table_def)
  moreover have "quick_rows [row_7, row_10, row_20] = [row_10, row_20]"
    by (simp add: quick_rows_def row_7_def row_10_def row_20_def)
  moreover have "standard_rows [row_7, row_10, row_20] = [row_7]"
    by (simp add: standard_rows_def row_7_def row_10_def row_20_def)
  ultimately show ?thesis
    by (simp add: recommend_def feasible_small Let_def)
qed

lemma get_recommendations_small:
  "get_recommendations (small_calculator\<lparr>results_df := Some small_table\<rparr>) =
     Inr (\<lparr> quick_test = Some (pick row_20),
            standard_test = Some (pick row_7),
            sensitive_test = Some (pick row_7) \<rparr>,
          small_calculator\<lparr>results_df := Some small_table\<rparr>)"
  by (simp add: get_recommendations_def recommend_small)

text \<open>
  C4 fails on the source at the empty table. A sweep over an empty range succeeds and stores
  a table without rows, which has no columns either; \<^verbatim>\<open>get_recommendations\<close> then
  raises \<^verbatim>\<open>KeyError\<close> at its first column access, where the claim has it return three
  absent recommendations.
\<close>

theorem recommendations_of_empty_table:
  "calculate_power_analysis example_calculator (Some []) =
     Inr ([], example_calculator\<lparr>results_df := Some []\<rparr>)
   \<and> get_recommendations (example_calculator\<lparr>results_df := Some []\<rparr>) = Inl KeyError"
  by (simp add: calculate_power_analysis_def get_recommendations_def recommend_def)

text \<open>
  On every table with at least one row, in ascending order of \<open>MDE_Percent\<close>, the selection
  is the one C4 describes: nothing when no row is feasible; \<open>quick_test\<close> from the
  feasible row of at most 7 days with the largest MDE; \<open>standard_test\<close> from the middle
  one (index half the count, rounded down) of the feasible rows of more than 7 and at most 21
  days; \<open>sensitive_test\<close> from the feasible row with the smallest MDE; each carrying the
  row's MDE, stored duration in days and total sample size.
\<close>

lemma recommend_selection_rule:
  assumes df: "df \<noteq> []" and asc: "sorted (map MDE_Percent df)"
  shows "\<exists>recs. recommend df = Inr recs
     \<and> (feasible_rows df = [] \<longrightarrow>
          quick_test recs = None \<and> standard_test recs = None \<and> sensitive_test recs = None)
     \<and> (quick_rows (feasible_rows df) = [] \<longrightarrow> quick_test recs = None)
     \<and> (quick_rows (feasible_rows df) \<noteq> [] \<longrightarrow>
          (\<exists>r \<in> set (feasible_rows df). Duration_Days r \<le> 7
              \<and> (\<forall>r' \<in> set (feasible_rows df).
                     Duration_Days r' \<le> 7 \<longrightarrow> MDE_Percent r' \<le> MDE_Percent r)
              \<and> quick_test recs = Some \<lparr> mde = MDE_Percent r, duration = Duration_Days r,
                                          sample_size = Total_Sample_Size r \<rparr>))
     \<and> (standard_rows (feasible_rows df) = [] \<longrightarrow> standard_test recs = None)
     \<and> (standard_rows (feasible_rows df) \<noteq> [] \<longrightarrow>
          (let standard = filter (\<lambda>r. 7 < Duration_Days r \<and> Duration_Days r \<le> 21)
                            (feasible_rows df);
               r = standard ! (length standard div 2)
           in length standard div 2 < length standard
              \<and> standard_test recs = Some \<lparr> mde = MDE_Percent r, duration = Duration_Days r,
                                             sample_size = Total_Sample_Size r \<rparr>))
     \<and> (feasible_rows df \<noteq> [] \<longrightarrow>
          (\<exists>r \<in> set (feasible_rows df).
              (\<forall>r' \<in> set (feasible_rows df). MDE_Percent r \<le> MDE_Percent r')
              \<and> sensitive_test recs = Some \<lparr> mde = MDE_Percent r, duration = Duration_Days r,
                                              sample_size = Total_Sample_Size r \<rparr>))"
proof -
  let ?f = "feasible_rows df"
  let ?q = "quick_rows ?f"
  let ?s = "standard_rows ?f"
  obtain recs where recs: "recommend df = Inr recs"
    using df by (simp add: recommend_def Let_def)
  note R = recommend_Inr(2-4)[OF recs]
  have ascf: "sorted (map MDE_Percent ?f)"
    unfolding feasible_rows_def using asc by (rule sorted_filter)
  have empty: "?f = [] \<longrightarrow>
      quick_test recs = None \<and> standard_test recs = None \<and> sensitive_test recs = None"
    using R by (simp add: quick_rows_def standard_rows_def)
  have q0: "?q = [] \<longrightarrow> quick_test recs = None"
    using R(1) by simp
  have s0: "?s = [] \<longrightarrow> standard_test recs = None"
    using R(2) by simp
  have q1: "\<exists>r \<in> set ?f. Duration_Days r \<le> 7
              \<and> (\<forall>r' \<in> set ?f. Duration_Days r' \<le> 7 \<longrightarrow> MDE_Percent r' \<le> MDE_Percent r)
              \<and> quick_test recs = Some \<lparr> mde = MDE_Percent r, duration = Duration_Days r,
                                          sample_size = Total_Sample_Size r \<rparr>"
    if ne: "?q \<noteq> []"
  proof -
    let ?r = "last ?q"
    have "?r \<in> set ?q"
      using ne by (rule last_in_set)
    then have mem: "?r \<in> set ?f" "Duration_Days ?r \<le> 7"
      by (simp_all add: quick_rows_def)
    have "MDE_Percent r' \<le> MDE_Percent ?r" if "r' \<in> set ?f" "Duration_Days r' \<le> 7" for r'
      using sorted_filter_last[OF ascf, of "\<lambda>r. Duration_Days r \<le> 7" r'] ne that
      by (simp add: quick_rows_def)
    moreover have "quick_test recs = Some (pick ?r)"
      using R(1) ne by simp
    ultimately show ?thesis
      using mem by (intro bexI[of _ ?r]) (simp_all add: pick_def)
  qed
  have s1: "(let standard = filter (\<lambda>r. 7 < Duration_Days r \<and> Duration_Days r \<le> 21) ?f;
               r = standard ! (length standard div 2)
           in length standard div 2 < length standard
              \<and> standard_test recs = Some \<lparr> mde = MDE_Percent r, duration = Duration_Days r,
                                             sample_size = Total_Sample_Size r \<rparr>)"
    if ne: "?s \<noteq> []"
  proof -
    have "length ?s div 2 < length ?s"
      using ne by simp
    moreover have "standard_test recs = Some (pick (?s ! (length ?s div 2)))"
      using R(2) ne by simp
    ultimately show ?thesis
      by (simp add: Let_def pick_def standard_rows_def)
  qed
  have f1: "\<exists>r \<in> set ?f. (\<forall>r' \<in> set ?f. MDE_Percent r \<le> MDE_Percent r')
              \<and> sensitive_test recs = Some \<lparr> mde = MDE_Percent r, duration = Duration_Days r,
                                              sample_size = Total_Sample_Size r \<rparr>"
    if ne: "?f \<noteq> []"
  proof -
    let ?r = "hd ?f"
    have mem: "?r \<in> set ?f"
      using ne by (rule hd_in_set)
    have "MDE_Percent ?r \<le> MDE_Percent r'" if "r' \<in> set ?f" for r'
      using sorted_filter_hd[OF asc, of r'
          "\<lambda>r. Duration_Days r \<le> 30 \<and> Population_Split_Percent r \<le> 50"] that
      by (simp add: feasible_rows_def)
    moreover have "sensitive_test recs = Some (pick ?r)"
      using R(3) ne by simp
    ultimately show ?thesis
      using mem by (intro bexI[of _ ?r]) (simp_all add: pick_def)
  qed
  from recs empty q0 s0 q1 s1 f1 show ?thesis by blast
qed

text \<open>
  C10. Whenever \<^verbatim>\<open>get_recommendations\<close> returns and \<open>quick_test\<close> or
  \<open>standard_test\<close> is present, \<open>sensitive_test\<close> is present too. For the table \<open>df\<close>
  the recommendations were read from (the one the calculator holds afterwards): the quick and
  the standard rows are among the feasible rows, a present \<open>quick_test\<close> or
  \<open>standard_test\<close> means its pool is not empty, and \<open>sensitive_test\<close> is present
  whenever there is a feasible row.
\<close>

theorem sensitive_present_with_others:
  assumes "get_recommendations c = Inr (recs, c')"
  shows "\<exists>df. results_df c' = Some df
          \<and> set (quick_rows (feasible_rows df)) \<subseteq> set (feasible_rows df)
          \<and> set (standard_rows (feasible_rows df)) \<subseteq> set (feasible_rows df)
          \<and> (quick_test recs \<noteq> None \<longrightarrow> quick_rows (feasible_rows df) \<noteq> [])
          \<and> (standard_test recs \<noteq> None \<longrightarrow> standard_rows (feasible_rows df) \<noteq> [])
          \<and> (feasible_rows df \<noteq> [] \<longrightarrow> sensitive_test recs \<noteq> None)
          \<and> (quick_test recs \<noteq> None \<or> standard_test recs \<noteq> None
                \<longrightarrow> sensitive_test recs \<noteq> None)"
proof -
  from get_recommendations_table[OF assms] obtain df
    where df: "results_df c' = Some df" and r: "recommend df = Inr recs"
    by blast
  let ?f = "feasible_rows df"
  have q: "quick_test recs \<noteq> None \<longrightarrow> quick_rows ?f \<noteq> []"
    and s: "standard_test recs \<noteq> None \<longrightarrow> standard_rows ?f \<noteq> []"
    and f: "?f \<noteq> [] \<longrightarrow> sensitive_test recs \<noteq> None"
    using recommend_Inr(2-4)[OF r] by (simp_all split: if_splits)
  have "quick_rows ?f \<noteq> [] \<longrightarrow> ?f \<noteq> []" "standard_rows ?f \<noteq> [] \<longrightarrow> ?f \<noteq> []"
    by (auto simp: quick_rows_def standard_rows_def)
  with q s f df show ?thesis
    using quick_rows_subset[of ?f] standard_rows_subset[of ?f] by blast
qed

theorem sensitive_present_with_others_witness:
  "get_recommendations (small_calculator\<lparr>results_df := Some small_table\<rparr>) =
     Inr (\<lparr> quick_test = Some (pick row_20),
            standard_test = Some (pick row_7),
            sensitive_test = Some (pick row_7) \<rparr>,
          small_calculator\<lparr>results_df := Some small_table\<rparr>)
   \<and> sensitive_test \<lparr> quick_test = Some (pick row_20),
                       standard_test = Some (pick row_7),
                       sensitive_test = Some (pick row_7) \<rparr> \<noteq> None"
proof -
  from sensitive_present_with_others [OF get_recommendations_small]
  have "sensitive_test \<lparr> quick_test = Some (pick row_20),
                         standard_test = Some (pick row_7),
                         sensitive_test = Some (pick row_7) \<rparr> \<noteq> None"
    by simp
  with get_recommendations_small show ?thesis by blast
qed

end
